theory Spec2Isabelle
  imports Main "HOL-Library.Word"
begin

section \<open>Values and field maps\<close>

text \<open>
  The values of \<^verbatim>\<open>src/Vrac.js\<close>: \<^verbatim>\<open>undefined\<close>, \<^verbatim>\<open>null\<close>, booleans, numbers,
  strings, and the values a plain object inherits from \<^verbatim>\<open>Object.prototype\<close>. A number
  is \<^verbatim>\<open>NaN\<close> or an integer from \<open>- 2\<^sup>5\<^sup>3\<close> to \<open>2\<^sup>5\<^sup>3 - 1\<close>, a signed 54-bit word read
  with \<open>sint\<close>: these JavaScript holds exactly and prints in decimal. Other numbers,
  and objects and functions other than the inherited ones, are not represented.
\<close>

datatype error = Error string | TypeError

text \<open>
  The members of \<^verbatim>\<open>Object.prototype\<close>: \<open>ObjectFunction\<close> is the value of
  \<^verbatim>\<open>constructor\<close>, \<open>ObjectPrototype\<close> the value read from \<^verbatim>\<open>__proto__\<close> (the
  prototype object itself), the others are the methods of their names.
\<close>

datatype builtin =
  ObjectFunction | ObjectPrototype | DefineGetter | DefineSetter | HasOwnProperty
  | LookupGetter | LookupSetter | IsPrototypeOf | PropertyIsEnumerable | ToLocaleString
  | ToStringMethod | ValueOf

definition objectPrototype :: "string \<rightharpoonup> builtin" where
  "objectPrototype =
     map_of [(''constructor'', ObjectFunction), (''__proto__'', ObjectPrototype),
             (''__defineGetter__'', DefineGetter), (''__defineSetter__'', DefineSetter),
             (''hasOwnProperty'', HasOwnProperty), (''__lookupGetter__'', LookupGetter),
             (''__lookupSetter__'', LookupSetter), (''isPrototypeOf'', IsPrototypeOf),
             (''propertyIsEnumerable'', PropertyIsEnumerable),
             (''toLocaleString'', ToLocaleString), (''toString'', ToStringMethod),
             (''valueOf'', ValueOf)]"

datatype jsval =
  JUndefined | JNull | JBool bool | JNum "54 word" | JNaN | JStr string | JBuiltin builtin

text \<open>
  A \<^verbatim>\<open>fields\<close> object and a cached record are plain objects, given by their own
  properties. \<^verbatim>\<open>fields[key]\<close> reads the own property, else the member of
  \<^verbatim>\<open>Object.prototype\<close> of that name, else \<^verbatim>\<open>undefined\<close>.
\<close>

type_synonym fields = "string \<rightharpoonup> jsval"

definition lookup :: "fields \<Rightarrow> string \<Rightarrow> jsval" where
  "lookup fs k =
     (case fs k of
        Some v \<Rightarrow> v
      | None \<Rightarrow> (case objectPrototype k of Some b \<Rightarrow> JBuiltin b | None \<Rightarrow> JUndefined))"

text \<open>The truthiness test of \<^verbatim>\<open>if (v)\<close> and \<^verbatim>\<open>!v\<close>.\<close>

fun truthy :: "jsval \<Rightarrow> bool" where
  "truthy JUndefined = False"
| "truthy JNull = False"
| "truthy (JBool b) = b"
| "truthy (JNum n) = (n \<noteq> 0)"
| "truthy JNaN = False"
| "truthy (JStr s) = (s \<noteq> [])"
| "truthy (JBuiltin b) = True"

text \<open>
  \<^verbatim>\<open>a === b\<close>: equal values, except that \<^verbatim>\<open>NaN\<close> equals nothing; two inherited
  values are the same object when they are the same member.
\<close>

definition strictEq :: "jsval \<Rightarrow> jsval \<Rightarrow> bool" where
  "strictEq a b = (a = b \<and> a \<noteq> JNaN)"

text \<open>Decimal printing of an integer, and the string conversion of string concatenation.\<close>

definition digitChar :: "nat \<Rightarrow> char" where
  "digitChar d = ''0123456789'' ! d"

function digits :: "nat \<Rightarrow> string" where
  "digits n = (if n < 10 then [digitChar n] else digits (n div 10) @ [digitChar (n mod 10)])"
  by pat_completeness auto
termination
  by (relation "measure id") auto

declare digits.simps [simp del]

definition numToString :: "int \<Rightarrow> string" where
  "numToString n = (if n < 0 then CHR ''-'' # digits (nat (- n)) else digits (nat n))"

text \<open>
  The text of an inherited value: a built-in function prints as V8 (Node.js, Chrome)
  prints it, \<^verbatim>\<open>Object.prototype\<close> as \<^verbatim>\<open>[object Object]\<close>.
\<close>

fun functionName :: "builtin \<Rightarrow> string" where
  "functionName ObjectFunction = ''Object''"
| "functionName ObjectPrototype = []"
| "functionName DefineGetter = ''__defineGetter__''"
| "functionName DefineSetter = ''__defineSetter__''"
| "functionName HasOwnProperty = ''hasOwnProperty''"
| "functionName LookupGetter = ''__lookupGetter__''"
| "functionName LookupSetter = ''__lookupSetter__''"
| "functionName IsPrototypeOf = ''isPrototypeOf''"
| "functionName PropertyIsEnumerable = ''propertyIsEnumerable''"
| "functionName ToLocaleString = ''toLocaleString''"
| "functionName ToStringMethod = ''toString''"
| "functionName ValueOf = ''valueOf''"

definition nativeText :: "builtin \<Rightarrow> string" where
  "nativeText b =
     (if b = ObjectPrototype then ''[object Object]''
      else ''function '' @ functionName b @ ''() { [native code] }'')"

fun toString :: "jsval \<Rightarrow> string" where
  "toString JUndefined = ''undefined''"
| "toString JNull = ''null''"
| "toString (JBool b) = (if b then ''true'' else ''false'')"
| "toString (JNum n) = numToString (sint n)"
| "toString JNaN = ''NaN''"
| "toString (JStr s) = s"
| "toString (JBuiltin b) = nativeText b"

definition quoted :: "string \<Rightarrow> string" where
  "quoted s = CHR 0x27 # s @ [CHR 0x27]"

section \<open>String operations used by the URL builder\<close>

text \<open>
  \<^verbatim>\<open>url.match(/:([a-z,_]+)/gi)\<close>: the character class holds the letters (both cases,
  by the \<^verbatim>\<open>i\<close> flag), the comma and the underscore. The global match lists the
  non-overlapping matches from left to right, each a colon with the longest run of class
  characters after it; a colon with no class character after it is skipped.
\<close>

definition isNameChar :: "char \<Rightarrow> bool" where
  "isNameChar c = (c \<in> set ''abcdefghijklmnopqrstuvwxyzABCDEFGHIJKLMNOPQRSTUVWXYZ,_'')"

function colonRuns :: "(char \<Rightarrow> bool) \<Rightarrow> string \<Rightarrow> string list" where
  "colonRuns cls [] = []"
| "colonRuns cls (c # cs) =
     (if c = CHR '':'' \<and> takeWhile cls cs \<noteq> []
      then (c # takeWhile cls cs) # colonRuns cls (dropWhile cls cs)
      else colonRuns cls cs)"
  by pat_completeness auto
termination
  by (relation "measure (\<lambda>(cls, s). length s)") (auto simp: length_dropWhile_le less_Suc_eq_le)

definition matchAll :: "string \<Rightarrow> string list" where
  "matchAll url = colonRuns isNameChar url"

text \<open>\<^verbatim>\<open>(url.match(...) || []).map(s => s.slice(1))\<close>\<close>

definition reqFields :: "string \<Rightarrow> string list" where
  "reqFields url = map (drop 1) (matchAll url)"

text \<open>
  The first occurrence of a search string: the text before it and the text after it.
\<close>

fun findSub :: "string \<Rightarrow> string \<Rightarrow> (string \<times> string) option" where
  "findSub pat [] = (if pat = [] then Some ([], []) else None)"
| "findSub pat (c # cs) =
     (if take (length pat) (c # cs) = pat then Some ([], drop (length pat) (c # cs))
      else map_option (\<lambda>(b, a). (c # b, a)) (findSub pat cs))"

text \<open>
  The replacement text of \<^verbatim>\<open>String.prototype.replace\<close> with a string pattern
  (no capture groups): \<^verbatim>\<open>$$\<close> is a dollar sign, \<^verbatim>\<open>$&\<close> the matched text,
  \<^verbatim>\<open>$`\<close> the text before the match, \<^verbatim>\<open>$'\<close> the text after it; any other dollar
  sign stands for itself.
\<close>

fun getSubstitution :: "string \<Rightarrow> string \<Rightarrow> string \<Rightarrow> string \<Rightarrow> string" where
  "getSubstitution matched pre post [] = []"
| "getSubstitution matched pre post [c] = [c]"
| "getSubstitution matched pre post (c # d # ds) =
     (if c = CHR ''$'' \<and> d = CHR ''$'' then CHR ''$'' # getSubstitution matched pre post ds
      else if c = CHR ''$'' \<and> d = CHR ''&'' then matched @ getSubstitution matched pre post ds
      else if c = CHR ''$'' \<and> d = CHR 0x60 then pre @ getSubstitution matched pre post ds
      else if c = CHR ''$'' \<and> d = CHR 0x27 then post @ getSubstitution matched pre post ds
      else c # getSubstitution matched pre post (d # ds))"

text \<open>
  A built-in function given as the replacement is called with the matched text, the
  position and the whole string, \<^verbatim>\<open>this\<close> being \<^verbatim>\<open>undefined\<close>, and its result is
  converted to a string: \<^verbatim>\<open>Object\<close> wraps the matched text, which prints as itself;
  \<^verbatim>\<open>toString\<close> gives \<^verbatim>\<open>[object Undefined]\<close>; \<^verbatim>\<open>isPrototypeOf\<close> gives \<^verbatim>\<open>false\<close>
  for a string argument; the others convert \<^verbatim>\<open>this\<close> to an object first and throw
  a \<^verbatim>\<open>TypeError\<close>.
\<close>

fun callReplacer :: "builtin \<Rightarrow> string \<Rightarrow> error + string" where
  "callReplacer ObjectFunction matched = Inr matched"
| "callReplacer ToStringMethod matched = Inr ''[object Undefined]''"
| "callReplacer IsPrototypeOf matched = Inr ''false''"
| "callReplacer b matched = Inl TypeError"

text \<open>
  The text put in place of the match: the result of the call for a function, else the
  value as a string with its dollar patterns expanded.
\<close>

fun replacement :: "string \<Rightarrow> string \<Rightarrow> string \<Rightarrow> jsval \<Rightarrow> error + string" where
  "replacement matched pre post (JBuiltin b) =
     (if b = ObjectPrototype then Inr (getSubstitution matched pre post (nativeText b))
      else callReplacer b matched)"
| "replacement matched pre post v = Inr (getSubstitution matched pre post (toString v))"

text \<open>\<^verbatim>\<open>str.replace(pat, value)\<close> with a string pattern: the first occurrence only.\<close>

definition replace :: "string \<Rightarrow> string \<Rightarrow> jsval \<Rightarrow> error + string" where
  "replace str pat v =
     (case findSub pat str of
        None \<Rightarrow> Inr str
      | Some (pre, post) \<Rightarrow>
          (case replacement pat pre post v of
             Inl e \<Rightarrow> Inl e
           | Inr r \<Rightarrow> Inr (pre @ r @ post)))"

section \<open>The module state\<close>

text \<open>
  An entry of \<^verbatim>\<open>state.actionsLoading\<close> is what the two counter mutations can store:
  a number (an integer or \<^verbatim>\<open>NaN\<close>) or, for an action named like a member of
  \<^verbatim>\<open>Object.prototype\<close>, a string: \<open>Native b j\<close> is the text of the inherited value
  \<open>b\<close> followed by \<open>j\<close> digits \<^verbatim>\<open>1\<close>.
\<close>

datatype entry = Number int | NaN | Native builtin nat

record state =
  index :: "fields list"
  actionsLoading :: "string \<rightharpoonup> entry"

text \<open>\<^verbatim>\<open>get state()\<close>: the default state of a module.\<close>

definition defaultState :: state where
  "defaultState = \<lparr>index = [], actionsLoading = Map.empty\<rparr>"

section \<open>The resource object\<close>

text \<open>
  One entry of \<^verbatim>\<open>this.calls\<close>. The response payload \<open>'d\<close> and the parsed result
  \<open>'p\<close> are left open: the parsers and cachers are functions handed to the
  constructor (their defaults are imported from another module). A parser maps the
  payload and the fields to the parsed result; a cacher receives the action context and
  the parsed result, and is taken as the state change it commits.
\<close>

record ('d, 'p) call =
  name :: string
  method' :: string
  parser :: "'d \<Rightarrow> fields \<Rightarrow> 'p"
  cacher :: "'p \<Rightarrow> state \<Rightarrow> state"
  identified :: bool
  readCache :: bool

text \<open>
  The properties the constructor copies onto the instance. The field
  \<^verbatim>\<open>identifier\<close> is written \<open>identifier'\<close> (as \<^verbatim>\<open>method\<close>, \<^verbatim>\<open>except\<close> and
  \<^verbatim>\<open>includes\<close> are primed), the plain word being reserved.
  \<open>Model\<close> stands for \<^verbatim>\<open>fields => new Model(fields)\<close>; a model instance is an object
  whose properties are read like those of a record.
\<close>

record ('d, 'p) settings =
  baseUrl :: string
  identifier' :: string
  Model :: "fields \<Rightarrow> fields"
  parseSingle :: "'d \<Rightarrow> fields \<Rightarrow> 'p"
  parseMultiple :: "'d \<Rightarrow> fields \<Rightarrow> 'p"
  cacheMultiple :: "'p \<Rightarrow> state \<Rightarrow> state"
  cacheSingle :: "'p \<Rightarrow> state \<Rightarrow> state"
  cacheDestroy :: "'p \<Rightarrow> state \<Rightarrow> state"

text \<open>
  The constructor's options add \<^verbatim>\<open>only\<close> and \<^verbatim>\<open>except\<close>, each a string or an array
  of strings; the instance adds \<^verbatim>\<open>calls\<close>. Child modules are left out: they are
  instances of their own, sharing nothing with the parent.
\<close>

datatype names = Single string | Array "string list"

record ('d, 'p) options = "('d, 'p) settings" +
  only :: names
  except' :: names

record ('d, 'p) vrac = "('d, 'p) settings" +
  calls :: "('d, 'p) call list"

text \<open>
  The constructor's defaults for the options whose default is written in the class; the
  imported default functions are arguments.
\<close>

definition defaultOptions ::
  "(fields \<Rightarrow> fields) \<Rightarrow> ('d \<Rightarrow> fields \<Rightarrow> 'p) \<Rightarrow> ('d \<Rightarrow> fields \<Rightarrow> 'p) \<Rightarrow>
   ('p \<Rightarrow> state \<Rightarrow> state) \<Rightarrow> ('p \<Rightarrow> state \<Rightarrow> state) \<Rightarrow> ('p \<Rightarrow> state \<Rightarrow> state) \<Rightarrow>
   ('d, 'p) options" where
  "defaultOptions baseModel parseSingleDefault parseMultipleDefault
       cacheMultipleDefault cacheSingleDefault cacheDestroyDefault =
     \<lparr>baseUrl = ''/'', identifier' = ''id'', Model = baseModel,
      parseSingle = parseSingleDefault, parseMultiple = parseMultipleDefault,
      cacheMultiple = cacheMultipleDefault, cacheSingle = cacheSingleDefault,
      cacheDestroy = cacheDestroyDefault,
      only = Array [''index'', ''create'', ''read'', ''update'', ''destroy''],
      except' = Array []\<rparr>"

text \<open>\<^verbatim>\<open>createCall(name, options)\<close>, returning the entry it pushes on \<^verbatim>\<open>this.calls\<close>.\<close>

definition createCall ::
  "('d, 'p, 'a) settings_scheme \<Rightarrow> string \<Rightarrow> string option \<Rightarrow> ('d \<Rightarrow> fields \<Rightarrow> 'p) option \<Rightarrow>
   ('p \<Rightarrow> state \<Rightarrow> state) option \<Rightarrow> bool option \<Rightarrow> bool option \<Rightarrow> ('d, 'p) call" where
  "createCall self n methodOpt parserOpt cacherOpt identifiedOpt readCacheOpt =
     \<lparr>name = n,
      method' = (case methodOpt of None \<Rightarrow> ''get'' | Some m \<Rightarrow> m),
      parser = (case parserOpt of None \<Rightarrow> parseMultiple self | Some f \<Rightarrow> f),
      cacher = (case cacherOpt of None \<Rightarrow> cacheMultiple self | Some f \<Rightarrow> f),
      identified = (case identifiedOpt of None \<Rightarrow> False | Some b \<Rightarrow> b),
      readCache = (case readCacheOpt of None \<Rightarrow> False | Some b \<Rightarrow> b)\<rparr>"

text \<open>
  \<^verbatim>\<open>Array.isArray(only) ? only : [only]\<close> and \<^verbatim>\<open>except.includes(n)\<close>, which on a
  string is the substring test.
\<close>

definition onlyCalls :: "names \<Rightarrow> string list" where
  "onlyCalls ns = (case ns of Array xs \<Rightarrow> xs | Single s \<Rightarrow> [s])"

definition includes' :: "names \<Rightarrow> string \<Rightarrow> bool" where
  "includes' ns n = (case ns of Array xs \<Rightarrow> n \<in> set xs | Single s \<Rightarrow> findSub n s \<noteq> None)"

definition includeCalls :: "('d, 'p) options \<Rightarrow> string list" where
  "includeCalls opts = filter (\<lambda>n. \<not> includes' (except' opts) n) (onlyCalls (only opts))"

definition Vrac :: "('d, 'p) options \<Rightarrow> ('d, 'p) vrac" where
  "Vrac opts =
     \<lparr>baseUrl = baseUrl opts, identifier' = identifier' opts, Model = Model opts,
      parseSingle = parseSingle opts, parseMultiple = parseMultiple opts,
      cacheMultiple = cacheMultiple opts, cacheSingle = cacheSingle opts,
      cacheDestroy = cacheDestroy opts,
      calls =
        (if ''index'' \<in> set (includeCalls opts)
         then [createCall opts ''index'' None None None None None] else []) @
        (if ''create'' \<in> set (includeCalls opts)
         then [createCall opts ''create'' (Some ''post'') (Some (parseSingle opts))
                 (Some (cacheSingle opts)) (Some False) None] else []) @
        (if ''read'' \<in> set (includeCalls opts)
         then [createCall opts ''read'' None (Some (parseSingle opts))
                 (Some (cacheSingle opts)) (Some True) (Some True)] else []) @
        (if ''update'' \<in> set (includeCalls opts)
         then [createCall opts ''update'' (Some ''patch'') (Some (parseSingle opts))
                 (Some (cacheSingle opts)) (Some True) None] else []) @
        (if ''destroy'' \<in> set (includeCalls opts)
         then [createCall opts ''destroy'' (Some ''delete'') (Some (parseSingle opts))
                 (Some (cacheDestroy opts)) (Some True) None] else [])\<rparr>"

section \<open>The URL builder\<close>

text \<open>
  The \<^verbatim>\<open>reqFields.forEach\<close> loop of \<^verbatim>\<open>getUrl\<close>: the first field that reads
  \<^verbatim>\<open>undefined\<close> throws; otherwise its first occurrence in the current URL is
  replaced, and an error thrown by the replacement leaves \<^verbatim>\<open>getUrl\<close>.
\<close>

definition missingField :: "string \<Rightarrow> error" where
  "missingField field = Error (''You must pass the '' @ quoted field @ '' field'')"

fun substFields :: "fields \<Rightarrow> string list \<Rightarrow> string \<Rightarrow> error + string" where
  "substFields fs [] url = Inr url"
| "substFields fs (field # rest) url =
     (if lookup fs field = JUndefined then Inl (missingField field)
      else (case replace url (CHR '':'' # field) (lookup fs field) of
              Inl e \<Rightarrow> Inl e
            | Inr url' \<Rightarrow> substFields fs rest url'))"

text \<open>
  \<^verbatim>\<open>url.slice(-1)[0] !== '/'\<close>: true of the empty string too, whose last character
  is \<^verbatim>\<open>undefined\<close>.
\<close>

definition endsWithSlash :: "string \<Rightarrow> bool" where
  "endsWithSlash url = (url \<noteq> [] \<and> last url = CHR ''/'')"

definition appendIdentifier :: "string \<Rightarrow> jsval \<Rightarrow> string" where
  "appendIdentifier url v =
     (if truthy v
      then (if \<not> endsWithSlash url then url @ ''/'' else url) @ toString v
      else url)"

definition getUrl :: "('d, 'p, 'a) settings_scheme \<Rightarrow> fields \<Rightarrow> error + string" where
  "getUrl self fs =
     (case substFields fs (reqFields (baseUrl self)) (baseUrl self) of
        Inl e \<Rightarrow> Inl e
      | Inr url \<Rightarrow> Inr (appendIdentifier url (lookup fs (identifier' self))))"

section \<open>Mutations\<close>

text \<open>
  \<^verbatim>\<open>m[this.identifier] !== model[this.identifier]\<close> is the negation of \<^verbatim>\<open>===\<close>.
\<close>

definition createOrUpdate :: "('d, 'p, 'a) settings_scheme \<Rightarrow> state \<Rightarrow> fields \<Rightarrow> state" where
  "createOrUpdate self st model =
     st\<lparr>index :=
          filter (\<lambda>m. \<not> strictEq (lookup m (identifier' self)) (lookup model (identifier' self)))
            (index st)
          @ [model]\<rparr>"

definition destroy :: "('d, 'p, 'a) settings_scheme \<Rightarrow> state \<Rightarrow> fields \<Rightarrow> state" where
  "destroy self st model =
     st\<lparr>index :=
          filter (\<lambda>m. \<not> strictEq (lookup m (identifier' self)) (lookup model (identifier' self)))
            (index st)\<rparr>"

text \<open>
  Addition and subtraction of 1 as JavaScript computes them on an integer it can hold:
  exact up to \<open>2\<^sup>5\<^sup>3\<close> in size, rounded to the nearest number it can hold (to the even
  one of two) above.
\<close>

definition jsPlus1 :: "int \<Rightarrow> int" where
  "jsPlus1 n =
     (if - (2 ^ 53) \<le> n \<and> n < 2 ^ 53 then n + 1
      else if \<bar>n\<bar> < 2 ^ 54 \<and> n mod 4 = 2 then n + 2
      else n)"

definition jsMinus1 :: "int \<Rightarrow> int" where
  "jsMinus1 n = - jsPlus1 (- n)"

text \<open>
  \<^verbatim>\<open>(state.actionsLoading[action] || 0) + 1\<close>: a number other than 0 and \<^verbatim>\<open>NaN\<close>
  is incremented; a string, or an inherited value for an action that has no entry, is
  truthy and gets the digit \<^verbatim>\<open>1\<close> appended to its text; anything else gives 1.
  \<^verbatim>\<open>state.actionsLoading[action] - 1\<close>: a number is decremented, anything else
  gives \<^verbatim>\<open>NaN\<close>.
\<close>

definition plusOne :: "(string \<rightharpoonup> entry) \<Rightarrow> string \<Rightarrow> entry" where
  "plusOne m action =
     (case m action of
        Some (Number n) \<Rightarrow> Number (if n = 0 then 1 else jsPlus1 n)
      | Some NaN \<Rightarrow> Number 1
      | Some (Native b j) \<Rightarrow> Native b (Suc j)
      | None \<Rightarrow> (case objectPrototype action of Some b \<Rightarrow> Native b 1 | None \<Rightarrow> Number 1))"

definition minusOne :: "(string \<rightharpoonup> entry) \<Rightarrow> string \<Rightarrow> entry" where
  "minusOne m action = (case m action of Some (Number n) \<Rightarrow> Number (jsMinus1 n) | _ \<Rightarrow> NaN)"

text \<open>
  \<^verbatim>\<open>Object.assign({}, source)\<close> copies the own properties by assignment. Assigning
  to \<^verbatim>\<open>__proto__\<close> reaches the setter inherited by the new object, which stores no
  property, so a key \<^verbatim>\<open>__proto__\<close> is not copied. \<open>assignEntry\<close> is
  \<^verbatim>\<open>Object.assign({}, m, { [action]: v })\<close>.
\<close>

definition assign :: "(string \<rightharpoonup> 'v) \<Rightarrow> (string \<rightharpoonup> 'v)" where
  "assign m = m(''__proto__'' := None)"

definition assignEntry :: "(string \<rightharpoonup> 'v) \<Rightarrow> string \<Rightarrow> 'v \<Rightarrow> (string \<rightharpoonup> 'v)" where
  "assignEntry m action v =
     (if action = ''__proto__'' then assign m else (assign m)(action \<mapsto> v))"

definition loading :: "state \<Rightarrow> string \<Rightarrow> state" where
  "loading st action =
     st\<lparr>actionsLoading :=
          assignEntry (actionsLoading st) action (plusOne (actionsLoading st) action)\<rparr>"

definition loaded :: "state \<Rightarrow> string \<Rightarrow> state" where
  "loaded st action =
     st\<lparr>actionsLoading :=
          assignEntry (actionsLoading st) action (minusOne (actionsLoading st) action)\<rparr>"

section \<open>Getters\<close>

definition createModel :: "('d, 'p, 'a) settings_scheme \<Rightarrow> fields \<Rightarrow> fields" where
  "createModel self fs = Model self fs"

definition getters_index :: "('d, 'p, 'a) settings_scheme \<Rightarrow> state \<Rightarrow> fields list" where
  "getters_index self st = map (createModel self) (index st)"

definition getters_read ::
  "('d, 'p, 'a) settings_scheme \<Rightarrow> state \<Rightarrow> jsval \<Rightarrow> fields option" where
  "getters_read self st ident =
     find (\<lambda>m. strictEq (lookup m (identifier' self)) ident) (getters_index self st)"

section \<open>Actions\<close>

text \<open>
  The object handed to the request adapter. \<open>req_data\<close> is \<open>None\<close> for
  \<^verbatim>\<open>undefined\<close>, else the own properties of \<^verbatim>\<open>Object.assign({}, fields)\<close>.
\<close>

record request =
  req_url :: string
  req_method :: string
  req_data :: "fields option"
  req_params :: fields

text \<open>What an action resolves to: a cached model, the cached list, or the parsed response.\<close>

datatype 'p returned = CachedModel fields | CachedIndex "fields list" | Parsed 'p

text \<open>
  An action runs without interruption up to its \<^verbatim>\<open>await\<close>. It has then thrown
  (the promise is rejected and the adapter was never called), returned a value (again
  without a call), or called the request adapter with a request. Each outcome carries
  the module state at that point.
\<close>

datatype 'p started = Threw error state | Returned "'p returned" state | Requested request state

definition toLowerChar :: "char \<Rightarrow> char" where
  "toLowerChar c =
     (case map_of (zip ''ABCDEFGHIJKLMNOPQRSTUVWXYZ'' ''abcdefghijklmnopqrstuvwxyz'') c of
        Some l \<Rightarrow> l
      | None \<Rightarrow> c)"

definition toLowerCase :: "string \<Rightarrow> string" where
  "toLowerCase s = map toLowerChar s"

text \<open>
  From \<^verbatim>\<open>let data = undefined\<close> to the adapter call: the \<^verbatim>\<open>loading\<close> commit comes
  first, then \<^verbatim>\<open>getUrl\<close>, whose error passes through the \<^verbatim>\<open>finally\<close> block.
\<close>

definition sendRequest ::
  "('d, 'p, 'a) settings_scheme \<Rightarrow> ('d, 'p) call \<Rightarrow> state \<Rightarrow> fields \<Rightarrow> fields \<Rightarrow> string \<Rightarrow>
   'p started" where
  "sendRequest self c st fs ps meth =
     (let data = (if toLowerCase meth \<in> set [''post'', ''put'', ''patch'']
                  then Some (assign fs) else None);
          st1 = loading st (name c)
      in case getUrl self fs of
           Inl e \<Rightarrow> Threw e (loaded st1 (name c))
         | Inr u \<Rightarrow>
             Requested \<lparr>req_url = u, req_method = meth, req_data = data, req_params = ps\<rparr>
               st1)"

definition requiresError :: "('d, 'p, 'a) settings_scheme \<Rightarrow> ('d, 'p) call \<Rightarrow> error" where
  "requiresError self c =
     Error (''The '' @ quoted (name c) @ '' action requires a ''
            @ quoted (''fields.'' @ identifier' self) @ '' option'')"

definition forbidsError :: "('d, 'p, 'a) settings_scheme \<Rightarrow> ('d, 'p) call \<Rightarrow> error" where
  "forbidsError self c =
     Error (''The '' @ quoted (name c) @ '' action can not be used with the ''
            @ quoted (''fields.'' @ identifier' self) @ '' option'')"

text \<open>
  The action of a call, with its options \<^verbatim>\<open>fields\<close>, \<^verbatim>\<open>params\<close>, \<^verbatim>\<open>method\<close> and
  \<^verbatim>\<open>readCache\<close>; the last two are \<open>None\<close> when the caller leaves them out.
\<close>

definition action ::
  "('d, 'p, 'a) settings_scheme \<Rightarrow> ('d, 'p) call \<Rightarrow> state \<Rightarrow> fields \<Rightarrow> fields \<Rightarrow>
   string option \<Rightarrow> bool option \<Rightarrow> 'p started" where
  "action self c st fs ps methodOpt readCacheOpt =
     (let meth = (case methodOpt of None \<Rightarrow> method' c | Some m \<Rightarrow> m);
          readCache' = (case readCacheOpt of None \<Rightarrow> readCache c | Some b \<Rightarrow> b)
      in if identified c then
           (if \<not> truthy (lookup fs (identifier' self)) then Threw (requiresError self c) st
            else if readCache' then
              (case getters_read self st (lookup fs (identifier' self)) of
                 Some m \<Rightarrow> Returned (CachedModel m) st
               | None \<Rightarrow> sendRequest self c st fs ps meth)
            else sendRequest self c st fs ps meth)
         else
           (if truthy (lookup fs (identifier' self)) then Threw (forbidsError self c) st
            else if readCache' then Returned (CachedIndex (getters_index self st)) st
            else sendRequest self c st fs ps meth))"

text \<open>
  The rest of the action, once the adapter's promise has settled (\<open>Inl\<close>: it rejected;
  \<open>Inr\<close>: the \<^verbatim>\<open>data\<close> of its response), in the state found at that moment: the
  \<^verbatim>\<open>loaded\<close> commit of the \<^verbatim>\<open>finally\<close> block, then parser and cacher.
\<close>

definition settle ::
  "('d, 'p) call \<Rightarrow> fields \<Rightarrow> state \<Rightarrow> error + 'd \<Rightarrow> (error + 'p returned) \<times> state" where
  "settle c fs st response =
     (let st2 = loaded st (name c)
      in case response of
           Inl e \<Rightarrow> (Inl e, st2)
         | Inr d \<Rightarrow> (let parsed = parser c d fs in (Inr (Parsed parsed), cacher c parsed st2)))"

text \<open>
  A whole action with nothing else running in between, against an adapter given as a
  function of the request and the state it sees. The result lists the requests the
  adapter received.
\<close>

definition run ::
  "('d, 'p, 'a) settings_scheme \<Rightarrow> ('d, 'p) call \<Rightarrow> (request \<Rightarrow> state \<Rightarrow> error + 'd) \<Rightarrow>
   state \<Rightarrow> fields \<Rightarrow> fields \<Rightarrow> string option \<Rightarrow> bool option \<Rightarrow>
   (error + 'p returned) \<times> state \<times> request list" where
  "run self c adapter st fs ps methodOpt readCacheOpt =
     (case action self c st fs ps methodOpt readCacheOpt of
        Threw e st' \<Rightarrow> (Inl e, st', [])
      | Returned v st' \<Rightarrow> (Inr v, st', [])
      | Requested req st1 \<Rightarrow>
          (case settle c fs st1 (adapter req st1) of (r, st2) \<Rightarrow> (r, st2, [req])))"

text \<open>
  \<^verbatim>\<open>get actions()\<close>: an object keyed by call name, so that a later call of the same
  name replaces an earlier one; the assignment \<^verbatim>\<open>actions['__proto__'] = ...\<close> stores no
  property. \<open>dispatch\<close> runs the action of that name, if the object has one of its own.
\<close>

definition callNamed :: "('d, 'p) vrac \<Rightarrow> string \<Rightarrow> ('d, 'p) call option" where
  "callNamed self n =
     (if n = ''__proto__'' then None else find (\<lambda>c. name c = n) (rev (calls self)))"

definition actions ::
  "('d, 'p) vrac \<Rightarrow> string \<rightharpoonup> (state \<Rightarrow> fields \<Rightarrow> fields \<Rightarrow> string option \<Rightarrow> bool option \<Rightarrow> 'p started)"
  where
  "actions self n = map_option (action self) (callNamed self n)"

definition dispatch ::
  "('d, 'p) vrac \<Rightarrow> string \<Rightarrow> state \<Rightarrow> fields \<Rightarrow> fields \<Rightarrow> string option \<Rightarrow> bool option \<Rightarrow>
   'p started option" where
  "dispatch self n st fs ps methodOpt readCacheOpt =
     map_option (\<lambda>a. a st fs ps methodOpt readCacheOpt) (actions self n)"

section \<open>Definitions used to state the properties\<close>

text \<open>
  The placeholder syntax in the words of the specification, for comparison with
  \<open>reqFields\<close>: a colon followed by alphanumeric or underscore characters.
\<close>

definition isSpecNameChar :: "char \<Rightarrow> bool" where
  "isSpecNameChar c =
     (c \<in> set ''abcdefghijklmnopqrstuvwxyzABCDEFGHIJKLMNOPQRSTUVWXYZ0123456789_'')"

definition specPlaceholders :: "string \<Rightarrow> string list" where
  "specPlaceholders url = map (drop 1) (colonRuns isSpecNameChar url)"

text \<open>
  The values whose use as a replacement throws: the inherited functions other than
  \<^verbatim>\<open>Object\<close>, \<^verbatim>\<open>toString\<close> and \<^verbatim>\<open>isPrototypeOf\<close>.
\<close>

definition replacementThrows :: "jsval \<Rightarrow> bool" where
  "replacementThrows v = (case replacement [] [] [] v of Inl e \<Rightarrow> True | Inr r \<Rightarrow> False)"

text \<open>The cached records whose identifier is that of a given record.\<close>

definition withIdOf :: "('d, 'p, 'a) settings_scheme \<Rightarrow> fields \<Rightarrow> state \<Rightarrow> fields list" where
  "withIdOf self model st =
     filter (\<lambda>m. lookup m (identifier' self) = lookup model (identifier' self)) (index st)"

text \<open>The uniqueness invariant: no two cached records with the same identifier value.\<close>

definition uniqueIds :: "('d, 'p, 'a) settings_scheme \<Rightarrow> state \<Rightarrow> bool" where
  "uniqueIds self st = distinct (map (\<lambda>m. lookup m (identifier' self)) (index st))"

text \<open>
  The loading counter of an action as a number, read the way the \<^verbatim>\<open>loading\<close>
  mutation reads it, \<^verbatim>\<open>state.actionsLoading[action] || 0\<close>: an entry \<^verbatim>\<open>NaN\<close> and
  an action with no entry count 0. There is no such number (\<open>None\<close>) when the
  expression gives a string or an inherited value.
\<close>

definition loadingCount :: "state \<Rightarrow> string \<Rightarrow> int option" where
  "loadingCount st a =
     (case actionsLoading st a of
        Some (Number n) \<Rightarrow> Some n
      | Some NaN \<Rightarrow> Some 0
      | Some (Native b j) \<Rightarrow> None
      | None \<Rightarrow> (if objectPrototype a = None then Some 0 else None))"

text \<open>
  A concrete resource for the instances below: the constructor's defaults with a given
  base URL, payload and parsed result both a record, parsers that return the payload,
  a model constructor that keeps the fields, and cachers that commit
  \<^verbatim>\<open>createOrUpdate\<close> and \<^verbatim>\<open>destroy\<close> on the identifier \<^verbatim>\<open>id\<close>. Its \<^verbatim>\<open>create\<close>
  and \<^verbatim>\<open>read\<close> calls are written out as the constructor builds them.
\<close>

definition sampleOptions :: "string \<Rightarrow> (fields, fields) options" where
  "sampleOptions url =
     (defaultOptions (\<lambda>fs. fs) (\<lambda>d fs. d) (\<lambda>d fs. d)
        (\<lambda>p st. st\<lparr>index := filter (\<lambda>m. \<not> strictEq (lookup m ''id'') (lookup p ''id''))
                                  (index st) @ [p]\<rparr>)
        (\<lambda>p st. st\<lparr>index := filter (\<lambda>m. \<not> strictEq (lookup m ''id'') (lookup p ''id''))
                                  (index st) @ [p]\<rparr>)
        (\<lambda>p st. st\<lparr>index := filter (\<lambda>m. \<not> strictEq (lookup m ''id'') (lookup p ''id''))
                                  (index st)\<rparr>))
       \<lparr>baseUrl := url\<rparr>"

definition sampleCreate :: "(fields, fields) call" where
  "sampleCreate =
     createCall (sampleOptions ''/posts'') ''create'' (Some ''post'')
       (Some (parseSingle (sampleOptions ''/posts'')))
       (Some (cacheSingle (sampleOptions ''/posts''))) (Some False) None"

definition sampleRead :: "(fields, fields) call" where
  "sampleRead =
     createCall (sampleOptions ''/posts'') ''read'' None
       (Some (parseSingle (sampleOptions ''/posts'')))
       (Some (cacheSingle (sampleOptions ''/posts''))) (Some True) (Some True)"

text \<open>
  Two more calls for the instances: one made by \<^verbatim>\<open>createCall('constructor')\<close>, and a
  \<^verbatim>\<open>read\<close> call whose cacher commits \<^verbatim>\<open>loading\<close>.
\<close>

definition sampleConstructor :: "(fields, fields) call" where
  "sampleConstructor = createCall (sampleOptions ''/posts'') ''constructor'' None None None None None"

definition sampleCounting :: "(fields, fields) call" where
  "sampleCounting = sampleRead\<lparr>cacher := (\<lambda>p st. loading st ''read'')\<rparr>"

section \<open>Evaluation rules for concrete instances\<close>

lemmas url_eval =
  getUrl_def reqFields_def matchAll_def isNameChar_def lookup_def objectPrototype_def
  replace_def appendIdentifier_def endsWithSlash_def numToString_def digits.simps
  digitChar_def nativeText_def missingField_def quoted_def sampleOptions_def
  defaultOptions_def strictEq_def

lemmas action_eval =
  dispatch_def actions_def callNamed_def Vrac_def includeCalls_def includes'_def onlyCalls_def
  createCall_def action_def sendRequest_def toLowerCase_def toLowerChar_def
  getters_read_def getters_index_def createModel_def requiresError_def forbidsError_def
  run_def settle_def assign_def

lemmas counter_eval =
  loading_def loaded_def plusOne_def minusOne_def assignEntry_def assign_def jsPlus1_def
  jsMinus1_def defaultState_def loadingCount_def objectPrototype_def

section \<open>The URL builder: required fields\<close>

lemma replacement_throws:
  assumes "replacement matched pre post v = Inl e"
  shows "e = TypeError \<and> replacementThrows v"
proof (cases v)
  case (JBuiltin b)
  with assms show ?thesis
    by (cases b) (auto simp: replacementThrows_def)
qed (use assms in auto)

lemma replacement_succeeds:
  assumes "\<not> replacementThrows v"
  shows "\<exists>r. replacement matched pre post v = Inr r"
proof (cases v)
  case (JBuiltin b)
  with assms show ?thesis
    by (cases b) (auto simp: replacementThrows_def)
qed auto

lemma replace_error:
  "replace str pat v = Inl e \<Longrightarrow> e = TypeError \<and> replacementThrows v"
  by (auto simp: replace_def split: option.splits sum.splits dest: replacement_throws)

lemma replace_succeeds:
  "\<not> replacementThrows v \<Longrightarrow> \<exists>r. replace str pat v = Inr r"
  using replacement_succeeds [of v]
  by (auto simp: replace_def split: option.splits sum.splits) (metis Inl_Inr_False)

lemma substFields_first_missing:
  "find (\<lambda>f. lookup fs f = JUndefined) rf = Some f \<Longrightarrow>
   (substFields fs rf url = Inl (missingField f) \<or> substFields fs rf url = Inl TypeError) \<and>
   ((\<forall>g\<in>set rf. \<not> replacementThrows (lookup fs g)) \<longrightarrow>
      substFields fs rf url = Inl (missingField f))"
proof (induction rf arbitrary: url)
  case Nil
  then show ?case by simp
next
  case (Cons g rf)
  show ?case
  proof (cases "lookup fs g = JUndefined")
    case True
    with Cons.prems show ?thesis by simp
  next
    case False
    with Cons.prems have f: "find (\<lambda>f. lookup fs f = JUndefined) rf = Some f" by simp
    show ?thesis
    proof (cases "replace url (CHR '':'' # g) (lookup fs g)")
      case (Inl e)
      with replace_error [OF Inl] False show ?thesis by auto
    next
      case (Inr url')
      with Cons.IH [OF f, of url'] False show ?thesis by auto
    qed
  qed
qed

lemma substFields_succeeds:
  "\<forall>f\<in>set rf. lookup fs f \<noteq> JUndefined \<and> \<not> replacementThrows (lookup fs f) \<Longrightarrow>
   \<exists>s. substFields fs rf url = Inr s"
proof (induction rf arbitrary: url)
  case Nil
  then show ?case by simp
next
  case (Cons g rf)
  then obtain r where "replace url (CHR '':'' # g) (lookup fs g) = Inr r"
    using replace_succeeds [of "lookup fs g" url "CHR '':'' # g"] by auto
  with Cons show ?case by auto
qed

lemma substFields_error:
  "substFields fs rf url = Inl e \<Longrightarrow> (\<exists>f. e = missingField f) \<or> e = TypeError"
proof (induction rf arbitrary: url)
  case Nil
  then show ?case by simp
next
  case (Cons g rf)
  then show ?case
    by (auto split: if_splits sum.splits dest: replace_error)
qed

lemma getUrl_error:
  "getUrl self fs = Inl e \<Longrightarrow> (\<exists>f. e = missingField f) \<or> e = TypeError"
  by (auto simp: getUrl_def split: sum.splits dest: substFields_error)

text \<open>What the regular expression takes for a field name: a non-empty run of class characters.\<close>

lemma colonRuns_shape:
  "m \<in> set (colonRuns cls s) \<Longrightarrow> \<exists>f. m = CHR '':'' # f \<and> f \<noteq> [] \<and> (\<forall>c\<in>set f. cls c)"
proof (induction cls s rule: colonRuns.induct)
  case (1 cls)
  then show ?case by simp
next
  case (2 cls c cs)
  then show ?case
    by (auto split: if_splits dest: set_takeWhileD)
qed

lemma reqFields_shape:
  "f \<in> set (reqFields url) \<Longrightarrow> f \<noteq> [] \<and> (\<forall>c\<in>set f. isNameChar c)"
  unfolding reqFields_def matchAll_def by (auto dest!: colonRuns_shape)

text \<open>
  C1, as amended. A placeholder is what the regular expression of \<^verbatim>\<open>getUrl\<close> matches:
  a colon followed by the longest non-empty run of letters, commas and underscores
  (a digit ends the name). Whenever the value read for the field of some such
  placeholder is \<^verbatim>\<open>undefined\<close> (the field is absent and not inherited from
  \<^verbatim>\<open>Object.prototype\<close>), \<^verbatim>\<open>getUrl\<close> fails and returns no URL. The error is
  \<^verbatim>\<open>You must pass the '<field>' field\<close>, naming the first such field in order of
  appearance, unless the value read for an earlier placeholder is an inherited function
  that throws when called as the replacement; then it is that \<^verbatim>\<open>TypeError\<close>.
\<close>

theorem getUrl_missing_field:
  assumes "\<exists>f\<in>set (reqFields (baseUrl self)). lookup fs f = JUndefined"
  shows "\<exists>f\<in>set (reqFields (baseUrl self)).
           lookup fs f = JUndefined \<and>
           find (\<lambda>g. lookup fs g = JUndefined) (reqFields (baseUrl self)) = Some f \<and>
           (getUrl self fs = Inl (Error (''You must pass the '' @ quoted f @ '' field'')) \<or>
            getUrl self fs = Inl TypeError) \<and>
           ((\<forall>g\<in>set (reqFields (baseUrl self)). \<not> replacementThrows (lookup fs g)) \<longrightarrow>
              getUrl self fs = Inl (Error (''You must pass the '' @ quoted f @ '' field'')))"
proof -
  from assms obtain f
    where f: "find (\<lambda>g. lookup fs g = JUndefined) (reqFields (baseUrl self)) = Some f"
    by (cases "find (\<lambda>g. lookup fs g = JUndefined) (reqFields (baseUrl self))")
       (auto simp: find_None_iff)
  then have m: "f \<in> set (reqFields (baseUrl self))" "lookup fs f = JUndefined"
    by (auto simp: find_Some_iff)
  from substFields_first_missing [OF f, of "baseUrl self"]
  have "(getUrl self fs = Inl (missingField f) \<or> getUrl self fs = Inl TypeError) \<and>
        ((\<forall>g\<in>set (reqFields (baseUrl self)). \<not> replacementThrows (lookup fs g)) \<longrightarrow>
           getUrl self fs = Inl (missingField f))"
    by (auto simp: getUrl_def)
  with m f show ?thesis
    unfolding missingField_def by blast
qed

text \<open>
  An instance: \<^verbatim>\<open>/posts/:post_id/comments\<close> with fields \<^verbatim>\<open>{id: 3}\<close>.
\<close>

theorem getUrl_missing_field_witness:
  "getUrl (sampleOptions ''/posts/:post_id/comments'') [''id'' \<mapsto> JNum 3]
     = Inl (Error (''You must pass the '' @ quoted ''post_id'' @ '' field''))"
proof -
  have a: "\<exists>f\<in>set (reqFields (baseUrl (sampleOptions ''/posts/:post_id/comments''))).
          lookup [''id'' \<mapsto> JNum 3] f = JUndefined"
    by (simp add: url_eval)
  have b: "\<forall>g\<in>set (reqFields (baseUrl (sampleOptions ''/posts/:post_id/comments''))).
          \<not> replacementThrows (lookup [''id'' \<mapsto> JNum 3] g)"
    by (simp add: url_eval replacementThrows_def)
  from getUrl_missing_field [OF a] b show ?thesis
    by (simp add: url_eval)
qed

text \<open>
  C1 as the specification words it fails in three ways. \<^verbatim>\<open>:user1\<close> is a colon
  followed by alphanumeric characters and the field \<^verbatim>\<open>user1\<close> is absent, yet
  \<^verbatim>\<open>getUrl\<close> returns a URL, having read the placeholder as \<^verbatim>\<open>:user\<close>. The field
  \<^verbatim>\<open>constructor\<close> is absent from the empty fields, yet \<^verbatim>\<open>getUrl\<close> returns a URL,
  having read the inherited \<^verbatim>\<open>Object\<close>. The field \<^verbatim>\<open>valueOf\<close> is absent, and
  \<^verbatim>\<open>getUrl\<close> fails with a \<^verbatim>\<open>TypeError\<close> that names no field.
\<close>

theorem getUrl_placeholder_counterexample:
  "''user1'' \<in> set (specPlaceholders ''/users/:user1'') \<and>
   [''user'' \<mapsto> JStr ''ann''] ''user1'' = None \<and>
   getUrl (sampleOptions ''/users/:user1'') [''user'' \<mapsto> JStr ''ann''] = Inr ''/users/ann1'' \<and>
   ''constructor'' \<in> set (specPlaceholders ''/:constructor'') \<and>
   getUrl (sampleOptions ''/:constructor'') Map.empty = Inr ''/:constructor'' \<and>
   ''valueOf'' \<in> set (specPlaceholders ''/:valueOf'') \<and>
   getUrl (sampleOptions ''/:valueOf'') Map.empty = Inl TypeError"
  by (simp add: specPlaceholders_def isSpecNameChar_def url_eval)

section \<open>The URL builder: the identifier segment\<close>

text \<open>
  C2, as amended. Let every placeholder of the template read a value other than
  \<^verbatim>\<open>undefined\<close> whose use as the replacement does not throw, so that the substitution
  succeeds, with the string \<open>s\<close>. If the value read for the identifier field is
  truthy, \<^verbatim>\<open>getUrl\<close> returns \<open>s\<close>, one separator \<^verbatim>\<open>/\<close> unless \<open>s\<close> already ends
  with one, and the identifier as a string: the result is \<open>p\<close>, a single separator and
  the identifier, where \<open>p\<close> is \<open>s\<close> without its final separator if it has one. If the
  value read for the identifier field is falsy (as when the field is absent and not
  inherited from \<^verbatim>\<open>Object.prototype\<close>), \<^verbatim>\<open>getUrl\<close> returns \<open>s\<close> itself.
\<close>

theorem getUrl_identifier_segment:
  assumes "\<forall>f\<in>set (reqFields (baseUrl self)).
             lookup fs f \<noteq> JUndefined \<and> \<not> replacementThrows (lookup fs f)"
  shows "\<exists>s. substFields fs (reqFields (baseUrl self)) (baseUrl self) = Inr s \<and>
           (truthy (lookup fs (identifier' self)) \<longrightarrow>
              (\<exists>p. getUrl self fs = Inr (p @ ''/'' @ toString (lookup fs (identifier' self))) \<and>
                   (if endsWithSlash s then s = p @ ''/'' else s = p))) \<and>
           (\<not> truthy (lookup fs (identifier' self)) \<longrightarrow> getUrl self fs = Inr s)"
proof -
  from substFields_succeeds [OF assms] obtain s
    where s: "substFields fs (reqFields (baseUrl self)) (baseUrl self) = Inr s"
    by blast
  show ?thesis
  proof (cases "endsWithSlash s")
    case True
    then have "s = butlast s @ ''/''"
      by (simp add: endsWithSlash_def) (metis append_butlast_last_id)
    then have "s @ v = butlast s @ ''/'' @ v" for v
      by (metis append.assoc)
    with True s show ?thesis
      by (auto simp: getUrl_def appendIdentifier_def)
  next
    case False
    with s show ?thesis
      by (auto simp: getUrl_def appendIdentifier_def)
  qed
qed

text \<open>
  Instances: a template with and without a final separator, and fields without the
  identifier.
\<close>

theorem getUrl_identifier_segment_witness:
  "getUrl (sampleOptions ''/posts/:post_id/comments/'')
       [''post_id'' \<mapsto> JNum 12, ''id'' \<mapsto> JStr ''a7'']
     = Inr ''/posts/12/comments/a7'' \<and>
   getUrl (sampleOptions ''/posts/:post_id/comments'')
       [''post_id'' \<mapsto> JNum 12, ''id'' \<mapsto> JStr ''a7'']
     = Inr ''/posts/12/comments/a7'' \<and>
   getUrl (sampleOptions ''/posts/:post_id/comments'') [''post_id'' \<mapsto> JNum 12]
     = Inr ''/posts/12/comments''"
proof -
  have a: "\<forall>f\<in>set (reqFields (baseUrl (sampleOptions ''/posts/:post_id/comments/''))).
             lookup [''post_id'' \<mapsto> JNum 12, ''id'' \<mapsto> JStr ''a7''] f \<noteq> JUndefined \<and>
             \<not> replacementThrows (lookup [''post_id'' \<mapsto> JNum 12, ''id'' \<mapsto> JStr ''a7''] f)"
    by (simp add: url_eval replacementThrows_def)
  have b: "\<forall>f\<in>set (reqFields (baseUrl (sampleOptions ''/posts/:post_id/comments''))).
             lookup [''post_id'' \<mapsto> JNum 12, ''id'' \<mapsto> JStr ''a7''] f \<noteq> JUndefined \<and>
             \<not> replacementThrows (lookup [''post_id'' \<mapsto> JNum 12, ''id'' \<mapsto> JStr ''a7''] f)"
    by (simp add: url_eval replacementThrows_def)
  have c: "\<forall>f\<in>set (reqFields (baseUrl (sampleOptions ''/posts/:post_id/comments''))).
             lookup [''post_id'' \<mapsto> JNum 12] f \<noteq> JUndefined \<and>
             \<not> replacementThrows (lookup [''post_id'' \<mapsto> JNum 12] f)"
    by (simp add: url_eval replacementThrows_def)
  show ?thesis
    using getUrl_identifier_segment [OF a] getUrl_identifier_segment [OF b]
      getUrl_identifier_segment [OF c]
    by (simp add: url_eval)
qed

text \<open>
  C2 as worded fails in two ways: the fields \<^verbatim>\<open>{id: 0}\<close> contain the identifier
  field, and \<^verbatim>\<open>getUrl\<close> returns the template with no identifier segment; for a
  resource whose identifier is \<^verbatim>\<open>constructor\<close> the empty fields do not contain the
  identifier field, and \<^verbatim>\<open>getUrl\<close> appends a segment, the text of the inherited
  \<^verbatim>\<open>Object\<close>.
\<close>

theorem getUrl_identifier_counterexample:
  "[''id'' \<mapsto> JNum 0] ''id'' = Some (JNum 0) \<and>
   getUrl (sampleOptions ''/posts'') [''id'' \<mapsto> JNum 0] = Inr ''/posts'' \<and>
   getUrl (sampleOptions ''/posts'') [''id'' \<mapsto> JNum 0]
     \<noteq> Inr (''/posts'' @ ''/'' @ toString (JNum 0)) \<and>
   getUrl ((sampleOptions ''/posts'')\<lparr>identifier' := ''constructor''\<rparr>) Map.empty
     = Inr ''/posts/function Object() { [native code] }''"
  by (simp add: url_eval)

section \<open>The cache mutations\<close>

lemma strictEq_iff: "b \<noteq> JNaN \<Longrightarrow> strictEq a b = (a = b)"
  by (auto simp: strictEq_def)

lemma createOrUpdate_newest_wins:
  "lookup model' (identifier' self) = lookup model (identifier' self) \<Longrightarrow>
   lookup model (identifier' self) \<noteq> JNaN \<Longrightarrow>
   withIdOf self model (createOrUpdate self (createOrUpdate self st model) model') = [model']"
  by (simp add: createOrUpdate_def withIdOf_def filter_empty_conv strictEq_iff)

text \<open>
  C4, as amended. For a record whose identifier value is not \<^verbatim>\<open>NaN\<close>,
  \<^verbatim>\<open>createOrUpdate\<close> is idempotent: committing the same record a second time changes
  nothing, and the list then holds exactly one record with that record's identifier,
  the record committed.
\<close>

theorem createOrUpdate_idempotent:
  assumes "lookup model (identifier' self) \<noteq> JNaN"
  shows "createOrUpdate self (createOrUpdate self st model) model
           = createOrUpdate self st model \<and>
         withIdOf self model (createOrUpdate self (createOrUpdate self st model) model)
           = [model]"
  using assms by (simp add: createOrUpdate_def withIdOf_def filter_empty_conv strictEq_iff)

text \<open>An instance: record 2 committed twice to a cache holding records 1 and 2.\<close>

theorem createOrUpdate_idempotent_witness:
  "index (createOrUpdate (sampleOptions ''/posts'')
            (createOrUpdate (sampleOptions ''/posts'')
               \<lparr>index = [[''id'' \<mapsto> JNum 1], [''id'' \<mapsto> JNum 2]], actionsLoading = Map.empty\<rparr>
               [''id'' \<mapsto> JNum 2, ''title'' \<mapsto> JStr ''new''])
            [''id'' \<mapsto> JNum 2, ''title'' \<mapsto> JStr ''new''])
     = [[''id'' \<mapsto> JNum 1], [''id'' \<mapsto> JNum 2, ''title'' \<mapsto> JStr ''new'']]"
proof -
  have a: "lookup [''id'' \<mapsto> JNum 2, ''title'' \<mapsto> JStr ''new'']
             (identifier' (sampleOptions ''/posts'')) \<noteq> JNaN"
    by (simp add: url_eval)
  have b: "index (createOrUpdate (sampleOptions ''/posts'')
               \<lparr>index = [[''id'' \<mapsto> JNum 1], [''id'' \<mapsto> JNum 2]], actionsLoading = Map.empty\<rparr>
               [''id'' \<mapsto> JNum 2, ''title'' \<mapsto> JStr ''new''])
           = [[''id'' \<mapsto> JNum 1], [''id'' \<mapsto> JNum 2, ''title'' \<mapsto> JStr ''new'']]"
    by (simp add: createOrUpdate_def url_eval)
  from createOrUpdate_idempotent [OF a] b show ?thesis
    by simp
qed

text \<open>
  C4 as worded fails: a record whose identifier is \<^verbatim>\<open>NaN\<close>, committed twice to the
  empty cache, is cached twice.
\<close>

theorem createOrUpdate_NaN_counterexample:
  "index (createOrUpdate (sampleOptions ''/posts'')
            (createOrUpdate (sampleOptions ''/posts'') defaultState [''id'' \<mapsto> JNaN])
            [''id'' \<mapsto> JNaN])
     = [[''id'' \<mapsto> JNaN], [''id'' \<mapsto> JNaN]] \<and>
   createOrUpdate (sampleOptions ''/posts'')
       (createOrUpdate (sampleOptions ''/posts'') defaultState [''id'' \<mapsto> JNaN])
       [''id'' \<mapsto> JNaN]
     \<noteq> createOrUpdate (sampleOptions ''/posts'') defaultState [''id'' \<mapsto> JNaN]"
proof -
  have "index (createOrUpdate (sampleOptions ''/posts'') defaultState [''id'' \<mapsto> JNaN])
          = [[''id'' \<mapsto> JNaN]]"
    by (simp add: createOrUpdate_def defaultState_def url_eval)
  moreover
  have "index (createOrUpdate (sampleOptions ''/posts'')
            (createOrUpdate (sampleOptions ''/posts'') defaultState [''id'' \<mapsto> JNaN])
            [''id'' \<mapsto> JNaN])
     = [[''id'' \<mapsto> JNaN], [''id'' \<mapsto> JNaN]]"
    by (simp add: createOrUpdate_def defaultState_def url_eval)
  ultimately show ?thesis
    by (metis list.inject not_Cons_self2)
qed

text \<open>
  C5, as amended. \<^verbatim>\<open>destroy\<close> after \<^verbatim>\<open>createOrUpdate\<close>, with a record of the same
  identifier other than \<^verbatim>\<open>NaN\<close>, leaves no record with that identifier;
  \<^verbatim>\<open>destroy\<close> with a record whose identifier no cached record has leaves the state
  as it was.
\<close>

theorem destroy_after_createOrUpdate:
  "(lookup model' (identifier' self) = lookup model (identifier' self) \<and>
    lookup model (identifier' self) \<noteq> JNaN \<longrightarrow>
      withIdOf self model (destroy self (createOrUpdate self st model) model') = []) \<and>
   (withIdOf self model st = [] \<longrightarrow> destroy self st model = st)"
  by (auto simp: createOrUpdate_def destroy_def withIdOf_def filter_empty_conv filter_id_conv
      strictEq_def)

text \<open>
  Instances: a cache holding records 1 and 2; record 2 is replaced and then destroyed
  by a stale copy, and destroying an unknown record 5 changes nothing.
\<close>

theorem destroy_after_createOrUpdate_witness:
  "withIdOf (sampleOptions ''/posts'') [''id'' \<mapsto> JNum 2, ''title'' \<mapsto> JStr ''new'']
     (destroy (sampleOptions ''/posts'')
        (createOrUpdate (sampleOptions ''/posts'')
           \<lparr>index = [[''id'' \<mapsto> JNum 1], [''id'' \<mapsto> JNum 2]], actionsLoading = Map.empty\<rparr>
           [''id'' \<mapsto> JNum 2, ''title'' \<mapsto> JStr ''new''])
        [''id'' \<mapsto> JNum 2])
     = [] \<and>
   destroy (sampleOptions ''/posts'')
       \<lparr>index = [[''id'' \<mapsto> JNum 1], [''id'' \<mapsto> JNum 2]], actionsLoading = Map.empty\<rparr>
       [''id'' \<mapsto> JNum 5]
     = \<lparr>index = [[''id'' \<mapsto> JNum 1], [''id'' \<mapsto> JNum 2]], actionsLoading = Map.empty\<rparr>"
proof -
  have a: "lookup [''id'' \<mapsto> JNum 2] (identifier' (sampleOptions ''/posts''))
             = lookup [''id'' \<mapsto> JNum 2, ''title'' \<mapsto> JStr ''new'']
                 (identifier' (sampleOptions ''/posts'')) \<and>
           lookup [''id'' \<mapsto> JNum 2, ''title'' \<mapsto> JStr ''new'']
             (identifier' (sampleOptions ''/posts'')) \<noteq> JNaN"
    by (simp add: url_eval)
  have b: "withIdOf (sampleOptions ''/posts'') [''id'' \<mapsto> JNum 5]
             \<lparr>index = [[''id'' \<mapsto> JNum 1], [''id'' \<mapsto> JNum 2]], actionsLoading = Map.empty\<rparr>
           = []"
    by (simp add: withIdOf_def url_eval)
  from destroy_after_createOrUpdate
         [of "[''id'' \<mapsto> JNum 2]" "sampleOptions ''/posts''"
            "[''id'' \<mapsto> JNum 2, ''title'' \<mapsto> JStr ''new'']"] a
       destroy_after_createOrUpdate
         [of "[''id'' \<mapsto> JNum 5]" "sampleOptions ''/posts''" "[''id'' \<mapsto> JNum 5]"
            "\<lparr>index = [[''id'' \<mapsto> JNum 1], [''id'' \<mapsto> JNum 2]], actionsLoading = Map.empty\<rparr>"]
       b
  show ?thesis by blast
qed

text \<open>
  C5 as worded fails: a record whose identifier is \<^verbatim>\<open>NaN\<close> is still cached after
  \<^verbatim>\<open>createOrUpdate\<close> and \<^verbatim>\<open>destroy\<close> with that record.
\<close>

theorem destroy_NaN_counterexample:
  "index (destroy (sampleOptions ''/posts'')
            (createOrUpdate (sampleOptions ''/posts'') defaultState [''id'' \<mapsto> JNaN])
            [''id'' \<mapsto> JNaN])
     = [[''id'' \<mapsto> JNaN]] \<and>
   withIdOf (sampleOptions ''/posts'') [''id'' \<mapsto> JNaN]
     (destroy (sampleOptions ''/posts'')
        (createOrUpdate (sampleOptions ''/posts'') defaultState [''id'' \<mapsto> JNaN])
        [''id'' \<mapsto> JNaN])
     = [[''id'' \<mapsto> JNaN]]"
  by (simp add: destroy_def createOrUpdate_def withIdOf_def defaultState_def url_eval)

text \<open>
  C6, as amended. The uniqueness invariant holds in the default state; \<^verbatim>\<open>destroy\<close>,
  \<^verbatim>\<open>loading\<close> and \<^verbatim>\<open>loaded\<close> preserve it, and so does \<^verbatim>\<open>createOrUpdate\<close> with a
  record whose identifier value is not \<^verbatim>\<open>NaN\<close>.
\<close>

theorem uniqueIds_invariant:
  "uniqueIds self defaultState \<and>
   (uniqueIds self st \<longrightarrow>
      (lookup model (identifier' self) \<noteq> JNaN \<longrightarrow>
         uniqueIds self (createOrUpdate self st model)) \<and>
      uniqueIds self (destroy self st model) \<and>
      uniqueIds self (loading st a) \<and>
      uniqueIds self (loaded st a))"
  by (auto simp: uniqueIds_def defaultState_def createOrUpdate_def destroy_def loading_def
      loaded_def distinct_map_filter strictEq_iff)

text \<open>An instance: a cache holding records 1 and 2, and a new copy of record 2.\<close>

theorem uniqueIds_invariant_witness:
  "uniqueIds (sampleOptions ''/posts'')
     (createOrUpdate (sampleOptions ''/posts'')
        \<lparr>index = [[''id'' \<mapsto> JNum 1], [''id'' \<mapsto> JNum 2]], actionsLoading = Map.empty\<rparr>
        [''id'' \<mapsto> JNum 2, ''title'' \<mapsto> JStr ''new'']) \<and>
   uniqueIds (sampleOptions ''/posts'')
     (loaded \<lparr>index = [[''id'' \<mapsto> JNum 1], [''id'' \<mapsto> JNum 2]], actionsLoading = Map.empty\<rparr>
        ''read'')"
proof -
  have a: "uniqueIds (sampleOptions ''/posts'')
          \<lparr>index = [[''id'' \<mapsto> JNum 1], [''id'' \<mapsto> JNum 2]], actionsLoading = Map.empty\<rparr>"
    by (simp add: uniqueIds_def url_eval)
  have b: "lookup [''id'' \<mapsto> JNum 2, ''title'' \<mapsto> JStr ''new'']
             (identifier' (sampleOptions ''/posts'')) \<noteq> JNaN"
    by (simp add: url_eval)
  from uniqueIds_invariant
         [of "sampleOptions ''/posts''"
            "\<lparr>index = [[''id'' \<mapsto> JNum 1], [''id'' \<mapsto> JNum 2]], actionsLoading = Map.empty\<rparr>"]
       a b
  show ?thesis by blast
qed

text \<open>
  C6 as worded fails: \<^verbatim>\<open>createOrUpdate\<close> with a record whose identifier is
  \<^verbatim>\<open>NaN\<close>, on a cache that holds one such record and satisfies the invariant, leaves
  two records with the identifier value \<^verbatim>\<open>NaN\<close>.
\<close>

theorem uniqueIds_NaN_counterexample:
  "uniqueIds (sampleOptions ''/posts'')
     \<lparr>index = [[''id'' \<mapsto> JNaN]], actionsLoading = Map.empty\<rparr> \<and>
   \<not> uniqueIds (sampleOptions ''/posts'')
       (createOrUpdate (sampleOptions ''/posts'')
          \<lparr>index = [[''id'' \<mapsto> JNaN]], actionsLoading = Map.empty\<rparr> [''id'' \<mapsto> JNaN])"
  by (simp add: uniqueIds_def createOrUpdate_def url_eval)

text \<open>
  C10. \<^verbatim>\<open>createOrUpdate\<close> and \<^verbatim>\<open>destroy\<close> leave the loading counters as they
  were; \<^verbatim>\<open>loading\<close> and \<^verbatim>\<open>loaded\<close> leave the cached list as it was. The state has
  no other field.
\<close>

theorem mutations_frame:
  "actionsLoading (createOrUpdate self st model) = actionsLoading st \<and>
   actionsLoading (destroy self st model) = actionsLoading st \<and>
   index (loading st a) = index st \<and>
   index (loaded st a) = index st"
  by (simp add: createOrUpdate_def destroy_def loading_def loaded_def)

section \<open>The calls the constructor builds\<close>

lemma Vrac_settings [simp]:
  "baseUrl (Vrac opts) = baseUrl opts" "identifier' (Vrac opts) = identifier' opts"
  "Model (Vrac opts) = Model opts"
  by (simp_all add: Vrac_def)

text \<open>
  The calls named \<^verbatim>\<open>read\<close>, \<^verbatim>\<open>update\<close> and \<^verbatim>\<open>destroy\<close> are the identified ones;
  \<^verbatim>\<open>index\<close> and \<^verbatim>\<open>create\<close> are not identified; there are no others.
\<close>

lemma Vrac_calls:
  assumes "c \<in> set (calls (Vrac opts))"
  shows "(name c \<in> {''read'', ''update'', ''destroy''} \<and> identified c) \<or>
         (name c \<in> {''index'', ''create''} \<and> \<not> identified c)"
  using assms by (auto simp: Vrac_def createCall_def split: if_splits)

lemma Vrac_call_names:
  assumes "c \<in> set (calls (Vrac opts))"
  shows "objectPrototype (name c) = None"
  using Vrac_calls [OF assms] by (auto simp: objectPrototype_def)

lemma find_Some_member: "find P xs = Some x \<Longrightarrow> x \<in> set xs \<and> P x"
  by (induction xs) (auto split: if_splits)

lemma callNamed_Some:
  "callNamed self n = Some c \<Longrightarrow> c \<in> set (calls self) \<and> name c = n"
  unfolding callNamed_def by (auto split: if_splits dest: find_Some_member)

lemma dispatch_call:
  "dispatch self n st fs ps mo rco = Some r \<Longrightarrow>
   \<exists>c\<in>set (calls self). name c = n \<and> r = action self c st fs ps mo rco"
  by (auto simp: dispatch_def actions_def dest: callNamed_Some)

section \<open>Actions: validation of the identifier\<close>

text \<open>
  C3, as amended. An action of the constructor's calls that requires the identifier
  (\<^verbatim>\<open>read\<close>, \<^verbatim>\<open>update\<close>, \<^verbatim>\<open>destroy\<close>), run with fields from which the identifier
  reads \<^verbatim>\<open>undefined\<close> (the field is absent and not inherited from
  \<^verbatim>\<open>Object.prototype\<close>), and an action that forbids it (\<^verbatim>\<open>index\<close>, \<^verbatim>\<open>create\<close>), run
  with fields whose identifier value is truthy, fail synchronously, in the part of the
  action that runs before its first \<^verbatim>\<open>await\<close>, with an error naming the action and
  the identifier field; the request adapter has received no request and the state is
  unchanged.
\<close>

theorem identifier_validation:
  assumes "c \<in> set (calls (Vrac opts))"
  shows "(name c \<in> {''read'', ''update'', ''destroy''} \<and>
          lookup fs (identifier' opts) = JUndefined \<longrightarrow>
            run (Vrac opts) c adapter st fs ps mo rco =
              (Inl (Error (''The '' @ quoted (name c) @ '' action requires a ''
                           @ quoted (''fields.'' @ identifier' opts) @ '' option'')), st, [])) \<and>
         (name c \<in> {''index'', ''create''} \<and> truthy (lookup fs (identifier' opts)) \<longrightarrow>
            run (Vrac opts) c adapter st fs ps mo rco =
              (Inl (Error (''The '' @ quoted (name c) @ '' action can not be used with the ''
                           @ quoted (''fields.'' @ identifier' opts) @ '' option'')), st, []))"
proof -
  from Vrac_calls [OF assms] show ?thesis
  proof
    assume "name c \<in> {''read'', ''update'', ''destroy''} \<and> identified c"
    then show ?thesis
      by (auto simp: run_def action_def requiresError_def Let_def)
  next
    assume "name c \<in> {''index'', ''create''} \<and> \<not> identified c"
    then show ?thesis
      by (auto simp: run_def action_def forbidsError_def Let_def)
  qed
qed

text \<open>
  The scenario of C3: \<^verbatim>\<open>create\<close> with fields \<^verbatim>\<open>{id: 7}\<close> fails, naming
  \<^verbatim>\<open>fields.id\<close>, and the adapter is not called.
\<close>

theorem identifier_validation_witness:
  "run (Vrac (sampleOptions ''/posts'')) sampleCreate (\<lambda>req st. Inl (Error ''offline''))
       defaultState [''id'' \<mapsto> JNum 7] Map.empty None None
     = (Inl (Error (''The '' @ quoted ''create'' @ '' action can not be used with the ''
                    @ quoted ''fields.id'' @ '' option'')), defaultState, [])"
proof -
  have m: "sampleCreate \<in> set (calls (Vrac (sampleOptions ''/posts'')))"
    by (simp add: sampleCreate_def action_eval url_eval)
  have n: "name sampleCreate = ''create''"
    by (simp add: sampleCreate_def createCall_def)
  have t: "truthy (lookup [''id'' \<mapsto> JNum 7] (identifier' (sampleOptions ''/posts'')))"
    by (simp add: url_eval)
  from identifier_validation
         [OF m, of "[''id'' \<mapsto> JNum 7]" _ defaultState Map.empty None None] n t
  show ?thesis by (simp add: url_eval)
qed

text \<open>
  C3 as worded fails in two ways: the fields \<^verbatim>\<open>{id: 0}\<close> contain the identifier
  field, and \<^verbatim>\<open>create\<close> does not fail but calls the request adapter; for a resource
  whose identifier is \<^verbatim>\<open>constructor\<close> the empty fields lack the identifier field, and
  \<^verbatim>\<open>read\<close> does not fail but calls the request adapter, having read the inherited
  \<^verbatim>\<open>Object\<close>.
\<close>

theorem identifier_validation_counterexample:
  "[''id'' \<mapsto> JNum 0] ''id'' = Some (JNum 0) \<and>
   dispatch (Vrac (sampleOptions ''/posts'')) ''create'' defaultState [''id'' \<mapsto> JNum 0]
       Map.empty None None
     = Some (Requested \<lparr>req_url = ''/posts'', req_method = ''post'',
                         req_data = Some [''id'' \<mapsto> JNum 0], req_params = Map.empty\<rparr>
               (loading defaultState ''create'')) \<and>
   dispatch (Vrac ((sampleOptions ''/posts'')\<lparr>identifier' := ''constructor''\<rparr>)) ''read''
       defaultState Map.empty Map.empty None None
     = Some (Requested \<lparr>req_url = ''/posts/function Object() { [native code] }'',
                         req_method = ''get'', req_data = None, req_params = Map.empty\<rparr>
               (loading defaultState ''read''))"
  by (simp add: action_eval url_eval defaultState_def)

section \<open>Actions: the loading counter\<close>

lemma action_Requested:
  assumes "action self c st fs ps mo rco = Requested req st1"
  shows "st1 = loading st (name c)"
  using assms
  by (auto simp: action_def sendRequest_def Let_def split: if_splits option.splits sum.splits)

text \<open>
  One \<^verbatim>\<open>loading\<close> commit and the \<^verbatim>\<open>loaded\<close> commit after it, for an action whose
  name \<^verbatim>\<open>Object.prototype\<close> does not have and whose counter is a number below
  \<open>2\<^sup>5\<^sup>3\<close> in size.
\<close>

lemma loading_count:
  assumes "objectPrototype a = None" and "loadingCount st a = Some n"
    and "- (2 ^ 53) \<le> n" and "n < 2 ^ 53"
  shows "loadingCount (loading st a) a = Some (n + 1)"
    and "loadingCount (loaded (loading st a) a) a = Some n"
proof -
  from assms(1) have p: "a \<noteq> ''__proto__''"
    by (auto simp: objectPrototype_def)
  from assms p show "loadingCount (loading st a) a = Some (n + 1)"
    by (auto simp: loadingCount_def loading_def plusOne_def assignEntry_def assign_def
        jsPlus1_def split: option.splits entry.splits if_splits)
  from assms p show "loadingCount (loaded (loading st a) a) a = Some n"
    by (auto simp: loadingCount_def loading_def loaded_def plusOne_def minusOne_def
        assignEntry_def assign_def jsPlus1_def jsMinus1_def
        split: option.splits entry.splits if_splits)
qed

text \<open>
  When \<^verbatim>\<open>getUrl\<close> throws inside the \<^verbatim>\<open>try\<close> block, both commits have happened
  and the adapter was not called.
\<close>

lemma sendRequest_getUrl_error:
  "getUrl self fs = Inl e \<Longrightarrow>
   sendRequest self c st fs ps m = Threw e (loaded (loading st (name c)) (name c))"
  by (simp add: sendRequest_def)

text \<open>
  C7, as amended. Let an action reach the request adapter, in state \<open>st1\<close>; let its
  name not be the name of a member of \<^verbatim>\<open>Object.prototype\<close> (as holds of
  \<^verbatim>\<open>index\<close>, \<^verbatim>\<open>create\<close>, \<^verbatim>\<open>read\<close>, \<^verbatim>\<open>update\<close> and \<^verbatim>\<open>destroy\<close>), and let its
  counter, read as the number \<^verbatim>\<open>actionsLoading[name] || 0\<close>, be \<open>n\<close>, below
  \<open>2\<^sup>5\<^sup>3\<close> in size. In \<open>st1\<close> the counter is \<open>n + 1\<close> and the cache is as before. If
  the adapter's promise rejects, the action rejects with the same error, the counter is
  \<open>n\<close> again and the cache is unchanged. If the promise resolves, the counter is \<open>n\<close>
  again, given a cacher that leaves the counters alone. Nothing else runs between the
  two halves of the action.
\<close>

theorem loading_counter_symmetric:
  assumes "action self c st fs ps mo rco = Requested req st1"
    and "objectPrototype (name c) = None"
    and "loadingCount st (name c) = Some n" and "- (2 ^ 53) \<le> n" and "n < 2 ^ 53"
  shows "loadingCount st1 (name c) = Some (n + 1) \<and>
         index st1 = index st \<and>
         (\<forall>e. \<exists>st2. settle c fs st1 (Inl e) = (Inl e, st2) \<and>
                 loadingCount st2 (name c) = Some n \<and>
                 index st2 = index st) \<and>
         (\<forall>d. (\<forall>p s. actionsLoading (cacher c p s) = actionsLoading s) \<longrightarrow>
                 loadingCount (snd (settle c fs st1 (Inr d))) (name c) = Some n)"
proof -
  from action_Requested [OF assms(1)] have st1: "st1 = loading st (name c)" .
  have a: "loadingCount st1 (name c) = Some (n + 1)" "index st1 = index st"
    using loading_count(1) [OF assms(2-5)] by (simp_all add: st1 loading_def)
  have b: "loadingCount (loaded st1 (name c)) (name c) = Some n"
    "index (loaded st1 (name c)) = index st"
    using loading_count(2) [OF assms(2-5)] by (simp_all add: st1 loading_def loaded_def)
  have c: "settle c fs st1 (Inl e) = (Inl e, loaded st1 (name c))" for e
    by (simp add: settle_def)
  have d: "loadingCount (snd (settle c fs st1 (Inr d))) (name c) = Some n"
    if "\<forall>p s. actionsLoading (cacher c p s) = actionsLoading s" for d
    using that b(1) by (simp add: settle_def loadingCount_def Let_def)
  from a b c d show ?thesis by blast
qed

text \<open>
  An instance: \<^verbatim>\<open>read\<close> with fields \<^verbatim>\<open>{id: 3}\<close> on an empty cache, the adapter
  rejecting or resolving.
\<close>

theorem loading_counter_symmetric_witness:
  "loadingCount (loading defaultState ''read'') ''read'' = Some 1 \<and>
   (\<exists>st2. settle sampleRead [''id'' \<mapsto> JNum 3] (loading defaultState ''read'')
               (Inl (Error ''offline'')) = (Inl (Error ''offline''), st2) \<and>
          loadingCount st2 ''read'' = Some 0 \<and> index st2 = []) \<and>
   loadingCount
     (snd (settle sampleRead [''id'' \<mapsto> JNum 3] (loading defaultState ''read'')
             (Inr [''id'' \<mapsto> JNum 3, ''title'' \<mapsto> JStr ''x''])))
     ''read'' = Some 0"
proof -
  have r: "action (Vrac (sampleOptions ''/posts'')) sampleRead defaultState [''id'' \<mapsto> JNum 3]
             Map.empty None None
           = Requested \<lparr>req_url = ''/posts/3'', req_method = ''get'', req_data = None,
                         req_params = Map.empty\<rparr> (loading defaultState ''read'')"
    by (simp add: sampleRead_def defaultState_def action_eval url_eval)
  have n: "name sampleRead = ''read''"
    by (simp add: sampleRead_def createCall_def)
  have o: "objectPrototype (name sampleRead) = None"
    by (simp add: n objectPrototype_def)
  have l: "loadingCount defaultState (name sampleRead) = Some 0"
    by (simp add: n counter_eval)
  have f: "\<forall>p s. actionsLoading (cacher sampleRead p s) = actionsLoading s"
    by (simp add: sampleRead_def createCall_def sampleOptions_def defaultOptions_def)
  from loading_counter_symmetric [OF r o l] n f show ?thesis
    by (simp add: defaultState_def)
qed

text \<open>
  C7 as worded fails in four ways. After a first \<^verbatim>\<open>read\<close> that fails, the entry of
  \<^verbatim>\<open>read\<close>, absent before the call, is 0. An action made by
  \<^verbatim>\<open>createCall('constructor')\<close> stores the text of the inherited \<^verbatim>\<open>Object\<close>
  followed by \<^verbatim>\<open>1\<close> before the call and \<^verbatim>\<open>NaN\<close> after it. A cacher that commits
  \<^verbatim>\<open>loading\<close> leaves the counter at 1 after a successful call. A counter at
  \<open>2\<^sup>5\<^sup>3\<close> is \<open>2\<^sup>5\<^sup>3\<close> still at the adapter call and \<open>2\<^sup>5\<^sup>3 - 1\<close> after it.
\<close>

theorem loading_counter_counterexample:
  "actionsLoading defaultState ''read'' = None \<and>
   action (Vrac (sampleOptions ''/posts'')) sampleRead defaultState [''id'' \<mapsto> JNum 3]
       Map.empty None None
     = Requested \<lparr>req_url = ''/posts/3'', req_method = ''get'', req_data = None,
                   req_params = Map.empty\<rparr> (loading defaultState ''read'') \<and>
   settle sampleRead [''id'' \<mapsto> JNum 3] (loading defaultState ''read'') (Inl (Error ''offline''))
     = (Inl (Error ''offline''), \<lparr>index = [], actionsLoading = [''read'' \<mapsto> Number 0]\<rparr>) \<and>
   action (Vrac (sampleOptions ''/posts'')) sampleConstructor defaultState Map.empty
       Map.empty None None
     = Requested \<lparr>req_url = ''/posts'', req_method = ''get'', req_data = None,
                   req_params = Map.empty\<rparr> (loading defaultState ''constructor'') \<and>
   loading defaultState ''constructor''
     = \<lparr>index = [], actionsLoading = [''constructor'' \<mapsto> Native ObjectFunction 1]\<rparr> \<and>
   settle sampleConstructor Map.empty (loading defaultState ''constructor'')
       (Inl (Error ''offline''))
     = (Inl (Error ''offline''), \<lparr>index = [], actionsLoading = [''constructor'' \<mapsto> NaN]\<rparr>) \<and>
   action (Vrac (sampleOptions ''/posts'')) sampleCounting defaultState [''id'' \<mapsto> JNum 3]
       Map.empty None None
     = Requested \<lparr>req_url = ''/posts/3'', req_method = ''get'', req_data = None,
                   req_params = Map.empty\<rparr> (loading defaultState ''read'') \<and>
   settle sampleCounting [''id'' \<mapsto> JNum 3] (loading defaultState ''read'')
       (Inr [''id'' \<mapsto> JNum 3])
     = (Inr (Parsed [''id'' \<mapsto> JNum 3]),
        \<lparr>index = [], actionsLoading = [''read'' \<mapsto> Number 1]\<rparr>) \<and>
   loading \<lparr>index = [], actionsLoading = [''read'' \<mapsto> Number 9007199254740992]\<rparr> ''read''
     = \<lparr>index = [], actionsLoading = [''read'' \<mapsto> Number 9007199254740992]\<rparr> \<and>
   settle sampleRead [''id'' \<mapsto> JNum 3]
       (loading \<lparr>index = [], actionsLoading = [''read'' \<mapsto> Number 9007199254740992]\<rparr>
          ''read'')
       (Inl (Error ''offline''))
     = (Inl (Error ''offline''),
        \<lparr>index = [], actionsLoading = [''read'' \<mapsto> Number 9007199254740991]\<rparr>)"
proof -
  have n: "name sampleRead = ''read''" "name sampleCounting = ''read''"
    "name sampleConstructor = ''constructor''"
    "cacher sampleCounting = (\<lambda>p st. loading st ''read'')"
    "parser sampleCounting = (\<lambda>d fs. d)"
    by (simp_all add: sampleRead_def sampleCounting_def sampleConstructor_def createCall_def
        sampleOptions_def defaultOptions_def)
  have a: "action (Vrac (sampleOptions ''/posts'')) sampleRead defaultState [''id'' \<mapsto> JNum 3]
       Map.empty None None
     = Requested \<lparr>req_url = ''/posts/3'', req_method = ''get'', req_data = None,
                   req_params = Map.empty\<rparr> (loading defaultState ''read'')"
    by (simp add: sampleRead_def defaultState_def action_eval url_eval)
  have b: "action (Vrac (sampleOptions ''/posts'')) sampleConstructor defaultState Map.empty
       Map.empty None None
     = Requested \<lparr>req_url = ''/posts'', req_method = ''get'', req_data = None,
                   req_params = Map.empty\<rparr> (loading defaultState ''constructor'')"
    by (simp add: sampleConstructor_def defaultState_def action_eval url_eval)
  have c: "action (Vrac (sampleOptions ''/posts'')) sampleCounting defaultState [''id'' \<mapsto> JNum 3]
       Map.empty None None
     = Requested \<lparr>req_url = ''/posts/3'', req_method = ''get'', req_data = None,
                   req_params = Map.empty\<rparr> (loading defaultState ''read'')"
    by (simp add: sampleCounting_def sampleRead_def defaultState_def action_eval url_eval)
  have d: "settle sampleRead [''id'' \<mapsto> JNum 3] (loading defaultState ''read'')
             (Inl (Error ''offline''))
     = (Inl (Error ''offline''), \<lparr>index = [], actionsLoading = [''read'' \<mapsto> Number 0]\<rparr>)"
    by (auto simp: settle_def n counter_eval fun_eq_iff)
  have e: "loading defaultState ''constructor''
     = \<lparr>index = [], actionsLoading = [''constructor'' \<mapsto> Native ObjectFunction 1]\<rparr>"
    by (auto simp: counter_eval fun_eq_iff)
  have f: "settle sampleConstructor Map.empty (loading defaultState ''constructor'')
       (Inl (Error ''offline''))
     = (Inl (Error ''offline''), \<lparr>index = [], actionsLoading = [''constructor'' \<mapsto> NaN]\<rparr>)"
    by (auto simp: settle_def n counter_eval fun_eq_iff)
  have g: "settle sampleCounting [''id'' \<mapsto> JNum 3] (loading defaultState ''read'')
       (Inr [''id'' \<mapsto> JNum 3])
     = (Inr (Parsed [''id'' \<mapsto> JNum 3]),
        \<lparr>index = [], actionsLoading = [''read'' \<mapsto> Number 1]\<rparr>)"
    by (auto simp: settle_def n counter_eval fun_eq_iff Let_def)
  have h: "loading \<lparr>index = [], actionsLoading = [''read'' \<mapsto> Number 9007199254740992]\<rparr>
             ''read''
     = \<lparr>index = [], actionsLoading = [''read'' \<mapsto> Number 9007199254740992]\<rparr>"
    by (auto simp: counter_eval fun_eq_iff)
  have i: "settle sampleRead [''id'' \<mapsto> JNum 3]
       (loading \<lparr>index = [], actionsLoading = [''read'' \<mapsto> Number 9007199254740992]\<rparr>
          ''read'')
       (Inl (Error ''offline''))
     = (Inl (Error ''offline''),
        \<lparr>index = [], actionsLoading = [''read'' \<mapsto> Number 9007199254740991]\<rparr>)"
    unfolding h by (auto simp: settle_def n counter_eval fun_eq_iff)
  have j: "actionsLoading defaultState ''read'' = None"
    by (simp add: defaultState_def)
  from a b c d e f g h i j show ?thesis
    by blast
qed

section \<open>Actions: the read scenario\<close>

text \<open>
  C8. For a resource built with base URL \<^verbatim>\<open>/posts/:post_id/comments\<close> and the
  defaults otherwise, dispatching \<^verbatim>\<open>read\<close> with fields \<^verbatim>\<open>{post_id: 1, id: 3}\<close>,
  when no cached record (as the model constructor presents it) has identifier 3, calls
  the request adapter with URL \<^verbatim>\<open>/posts/1/comments/3\<close> and the method \<^verbatim>\<open>get\<close>,
  the name under which the call table holds the HTTP method GET; no body is sent.
\<close>

theorem read_scenario:
  assumes "\<forall>m\<in>set (index st). lookup (baseModel m) ''id'' \<noteq> JNum 3"
  shows "dispatch
           (Vrac ((defaultOptions baseModel parseSingleDefault parseMultipleDefault
                     cacheMultipleDefault cacheSingleDefault cacheDestroyDefault)
                  \<lparr>baseUrl := ''/posts/:post_id/comments''\<rparr>))
           ''read'' st [''post_id'' \<mapsto> JNum 1, ''id'' \<mapsto> JNum 3] ps None None
         = Some (Requested \<lparr>req_url = ''/posts/1/comments/3'', req_method = ''get'',
                             req_data = None, req_params = ps\<rparr>
                   (loading st ''read''))"
proof -
  define opts where "opts = (defaultOptions baseModel parseSingleDefault parseMultipleDefault
                     cacheMultipleDefault cacheSingleDefault cacheDestroyDefault)
                  \<lparr>baseUrl := ''/posts/:post_id/comments''\<rparr>"
  define c where "c = createCall opts ''read'' None (Some (parseSingle opts))
                        (Some (cacheSingle opts)) (Some True) (Some True)"
  define fs where "fs = [''post_id'' \<mapsto> JNum 1, ''id'' \<mapsto> JNum 3]"
  have o: "baseUrl opts = ''/posts/:post_id/comments''" "identifier' opts = ''id''"
    "Model opts = baseModel"
    by (simp_all add: opts_def defaultOptions_def)
  have i: "lookup fs ''id'' = JNum 3"
    by (simp add: fs_def lookup_def)
  have named: "callNamed (Vrac opts) ''read'' = Some c"
    by (simp add: callNamed_def Vrac_def includeCalls_def includes'_def onlyCalls_def
        createCall_def opts_def defaultOptions_def c_def)
  have props: "name c = ''read''" "identified c" "readCache c" "method' c = ''get''"
    by (simp_all add: c_def createCall_def)
  have miss: "getters_read (Vrac opts) st (JNum 3) = None"
    using assms
    by (simp add: getters_read_def getters_index_def createModel_def o find_None_iff
        strictEq_def)
  have url: "getUrl (Vrac opts) fs = Inr ''/posts/1/comments/3''"
    by (simp add: o fs_def getUrl_def reqFields_def matchAll_def isNameChar_def lookup_def
        objectPrototype_def replace_def appendIdentifier_def endsWithSlash_def
        numToString_def digits.simps digitChar_def)
  have send: "sendRequest (Vrac opts) c st fs ps ''get'' =
      Requested \<lparr>req_url = ''/posts/1/comments/3'', req_method = ''get'',
                  req_data = None, req_params = ps\<rparr> (loading st ''read'')"
    by (simp add: sendRequest_def url props toLowerCase_def toLowerChar_def)
  have "action (Vrac opts) c st fs ps None None = sendRequest (Vrac opts) c st fs ps ''get''"
    by (simp add: action_def props o i miss)
  with send named show ?thesis
    by (simp add: dispatch_def actions_def opts_def fs_def)
qed

text \<open>An instance: the cache holds comment 4 of post 1 only.\<close>

theorem read_scenario_witness:
  "dispatch (Vrac (sampleOptions ''/posts/:post_id/comments'')) ''read''
       \<lparr>index = [[''id'' \<mapsto> JNum 4, ''post_id'' \<mapsto> JNum 1]], actionsLoading = Map.empty\<rparr>
       [''post_id'' \<mapsto> JNum 1, ''id'' \<mapsto> JNum 3] Map.empty None None
     = Some (Requested \<lparr>req_url = ''/posts/1/comments/3'', req_method = ''get'',
                         req_data = None, req_params = Map.empty\<rparr>
               (loading \<lparr>index = [[''id'' \<mapsto> JNum 4, ''post_id'' \<mapsto> JNum 1]],
                          actionsLoading = Map.empty\<rparr> ''read''))"
proof -
  have "\<forall>m\<in>set (index \<lparr>index = [[''id'' \<mapsto> JNum 4, ''post_id'' \<mapsto> JNum 1]],
                            actionsLoading = Map.empty\<rparr>).
          lookup ((\<lambda>fs. fs) m) ''id'' \<noteq> JNum 3"
    by (simp add: lookup_def)
  from read_scenario [OF this] show ?thesis
    by (simp add: sampleOptions_def)
qed

section \<open>Actions and URL builder: a falsy identifier\<close>

lemma missing_is_not_forbids:
  "missingField f \<noteq> forbidsError self c"
  by (simp add: missingField_def forbidsError_def)

text \<open>
  C9, as amended. Let the value read for the identifier field be falsy (\<^verbatim>\<open>0\<close>, the
  empty string, \<^verbatim>\<open>false\<close>; also \<^verbatim>\<open>null\<close>, \<^verbatim>\<open>NaN\<close> and \<^verbatim>\<open>undefined\<close>). The
  identifier checks treat it as absent: \<^verbatim>\<open>getUrl\<close> returns what the substitution of
  the placeholders gives, with no identifier segment; an identifier-requiring action
  (\<^verbatim>\<open>read\<close>, \<^verbatim>\<open>update\<close>, \<^verbatim>\<open>destroy\<close>) fails with the error that asks for the
  identifier, without a request, exactly as it does for fields from which the
  identifier reads \<^verbatim>\<open>undefined\<close>; an identifier-forbidding action (\<^verbatim>\<open>index\<close>,
  \<^verbatim>\<open>create\<close>) does not raise the error that forbids the identifier: it returns the
  cached list when asked to read the cache, and goes on to the request otherwise, which
  can still fail in \<^verbatim>\<open>getUrl\<close>.
\<close>

theorem falsy_identifier_absent:
  assumes "\<not> truthy (lookup fs (identifier' opts))" and "c \<in> set (calls (Vrac opts))"
  shows "getUrl (Vrac opts) fs = substFields fs (reqFields (baseUrl opts)) (baseUrl opts) \<and>
         (name c \<in> {''read'', ''update'', ''destroy''} \<longrightarrow>
            run (Vrac opts) c adapter st fs ps mo rco =
              (Inl (Error (''The '' @ quoted (name c) @ '' action requires a ''
                           @ quoted (''fields.'' @ identifier' opts) @ '' option'')), st, []) \<and>
            (\<forall>fs'. lookup fs' (identifier' opts) = JUndefined \<longrightarrow>
               run (Vrac opts) c adapter st fs ps mo rco =
                 run (Vrac opts) c adapter st fs' ps mo rco)) \<and>
         (name c \<in> {''index'', ''create''} \<longrightarrow>
            action (Vrac opts) c st fs ps mo rco =
              (if (case rco of None \<Rightarrow> readCache c | Some b \<Rightarrow> b)
               then Returned (CachedIndex (getters_index (Vrac opts) st)) st
               else sendRequest (Vrac opts) c st fs ps
                      (case mo of None \<Rightarrow> method' c | Some m \<Rightarrow> m)) \<and>
            (\<forall>st'. action (Vrac opts) c st fs ps mo rco \<noteq> Threw (forbidsError (Vrac opts) c) st'))"
proof -
  have u: "getUrl (Vrac opts) fs = substFields fs (reqFields (baseUrl opts)) (baseUrl opts)"
    using assms(1) by (simp add: getUrl_def appendIdentifier_def split: sum.splits)
  from Vrac_calls [OF assms(2)] show ?thesis
  proof
    assume i: "name c \<in> {''read'', ''update'', ''destroy''} \<and> identified c"
    then have "\<not> name c \<in> {''index'', ''create''}" by auto
    with i assms(1) u show ?thesis
      by (simp add: run_def action_def requiresError_def Let_def)
  next
    assume i: "name c \<in> {''index'', ''create''} \<and> \<not> identified c"
    then have n: "\<not> name c \<in> {''read'', ''update'', ''destroy''}" by auto
    have a: "action (Vrac opts) c st fs ps mo rco =
              (if (case rco of None \<Rightarrow> readCache c | Some b \<Rightarrow> b)
               then Returned (CachedIndex (getters_index (Vrac opts) st)) st
               else sendRequest (Vrac opts) c st fs ps
                      (case mo of None \<Rightarrow> method' c | Some m \<Rightarrow> m))"
      using i assms(1) by (simp add: action_def Let_def)
    have "sendRequest (Vrac opts) c st fs ps m \<noteq> Threw (forbidsError (Vrac opts) c) st'"
      for m st'
    proof (cases "getUrl (Vrac opts) fs")
      case (Inl e)
      have "e \<noteq> forbidsError (Vrac opts) c"
        using getUrl_error [OF Inl]
      proof
        assume "\<exists>f. e = missingField f"
        then show ?thesis
          by (auto simp: missing_is_not_forbids)
      next
        assume "e = TypeError"
        then show ?thesis
          by (simp add: forbidsError_def)
      qed
      with Inl show ?thesis
        by (simp add: sendRequest_def Let_def)
    next
      case (Inr u)
      then show ?thesis
        by (simp add: sendRequest_def Let_def)
    qed
    with a n u show ?thesis by auto
  qed
qed

text \<open>
  Instances with fields \<^verbatim>\<open>{id: 0}\<close>: the URL has no identifier segment,
  \<^verbatim>\<open>read\<close> fails asking for \<^verbatim>\<open>fields.id\<close>, and \<^verbatim>\<open>create\<close> goes on to the
  request.
\<close>

theorem falsy_identifier_absent_witness:
  "getUrl (Vrac (sampleOptions ''/posts'')) [''id'' \<mapsto> JNum 0] = Inr ''/posts'' \<and>
   run (Vrac (sampleOptions ''/posts'')) sampleRead (\<lambda>req st. Inl (Error ''offline''))
       defaultState [''id'' \<mapsto> JNum 0] Map.empty None None
     = (Inl (Error (''The '' @ quoted ''read'' @ '' action requires a ''
                    @ quoted ''fields.id'' @ '' option'')), defaultState, []) \<and>
   action (Vrac (sampleOptions ''/posts'')) sampleCreate defaultState [''id'' \<mapsto> JNum 0]
       Map.empty None None
     = Requested \<lparr>req_url = ''/posts'', req_method = ''post'',
                   req_data = Some [''id'' \<mapsto> JNum 0], req_params = Map.empty\<rparr>
         (loading defaultState ''create'')"
proof -
  have f: "\<not> truthy (lookup [''id'' \<mapsto> JNum 0] (identifier' (sampleOptions ''/posts'')))"
    by (simp add: url_eval)
  have r: "sampleRead \<in> set (calls (Vrac (sampleOptions ''/posts'')))"
    by (simp add: sampleRead_def action_eval url_eval)
  have c: "sampleCreate \<in> set (calls (Vrac (sampleOptions ''/posts'')))"
    by (simp add: sampleCreate_def action_eval url_eval)
  have n: "name sampleRead = ''read''" "name sampleCreate = ''create''"
    "method' sampleCreate = ''post''" "readCache sampleCreate = False"
    by (simp_all add: sampleRead_def sampleCreate_def createCall_def)
  have s: "sendRequest (Vrac (sampleOptions ''/posts'')) sampleCreate defaultState
             [''id'' \<mapsto> JNum 0] Map.empty ''post''
           = Requested \<lparr>req_url = ''/posts'', req_method = ''post'',
                   req_data = Some [''id'' \<mapsto> JNum 0], req_params = Map.empty\<rparr>
         (loading defaultState ''create'')"
    by (simp add: sendRequest_def n toLowerCase_def toLowerChar_def assign_def url_eval)
  from falsy_identifier_absent [OF f r, of _ defaultState Map.empty None None]
       falsy_identifier_absent [OF f c, of _ defaultState Map.empty None None] n s
  show ?thesis
    by (simp add: url_eval)
qed

text \<open>
  C9 as worded fails in two ways. A falsy identifier is not treated as absent
  throughout: as the value of a placeholder \<^verbatim>\<open>:id\<close> the identifier 0 is substituted,
  where an absent one makes \<^verbatim>\<open>getUrl\<close> fail. And an identifier-forbidding action does
  not always accept the call without error: \<^verbatim>\<open>create\<close> with fields \<^verbatim>\<open>{id: 0}\<close> on
  \<^verbatim>\<open>/posts/:post_id/comments\<close> fails for the missing \<^verbatim>\<open>post_id\<close>.
\<close>

theorem falsy_identifier_counterexample:
  "getUrl (sampleOptions ''/posts/:id'') [''id'' \<mapsto> JNum 0] = Inr ''/posts/0'' \<and>
   getUrl (sampleOptions ''/posts/:id'') Map.empty
     = Inl (Error (''You must pass the '' @ quoted ''id'' @ '' field'')) \<and>
   dispatch (Vrac (sampleOptions ''/posts/:post_id/comments'')) ''create'' defaultState
       [''id'' \<mapsto> JNum 0] Map.empty None None
     = Some (Threw (Error (''You must pass the '' @ quoted ''post_id'' @ '' field''))
               (loaded (loading defaultState ''create'') ''create''))"
  by (simp add: action_eval url_eval)

end
